theory Spec2Isabelle
  imports Main
begin

section \<open>cmdnotify: run a command, then notify of its completion\<close>

text \<open>
  The repository holds one C program, \<^verbatim>\<open>cmdnotify.c\<close>, in three revisions:
  \<^item> the first half of \<^verbatim>\<open>src/cmdnotify.c\<close> (lines 1-179): the command line is handed to
    \<^verbatim>\<open>system()\<close>;
  \<^item> \<^verbatim>\<open>src/unnamed/part_000\<close>: the target is started with \<^verbatim>\<open>fork\<close>/\<^verbatim>\<open>execv\<close> from
    \<^verbatim>\<open>run_prog\<close>;
  \<^item> the second half of \<^verbatim>\<open>src/cmdnotify.c\<close> (lines 180-423), the latest one: it adds
    \<^verbatim>\<open>create_progpath\<close>, \<^verbatim>\<open>prog_exists\<close>, the root check and a notifier urgency.
  The constants without a suffix below embed the latest revision. The suffix \<open>_p0\<close>
  marks what \<^verbatim>\<open>part_000\<close> does differently (its \<^verbatim>\<open>notify\<close> and \<^verbatim>\<open>notify_status\<close> are also
  those of the \<^verbatim>\<open>system()\<close> revision), and \<open>main_sys\<close> is \<^verbatim>\<open>main\<close> of the \<^verbatim>\<open>system()\<close>
  revision.

  A C string is a \<^typ>\<open>string\<close>: the characters before the terminating NUL. A buffer is
  a \<^typ>\<open>char list\<close> that holds every byte of the block, NUL bytes included.
\<close>

subsection \<open>The operating system as seen by the program\<close>

text \<open>How a child process ends: \<open>exit(n)\<close>, death by signal \<open>s\<close>, or never.\<close>

datatype ending = Exited nat | Signaled nat | Forever

text \<open>What the program does to the outside world, in order.\<close>

datatype event =
    Stderr string
  | Perror string
  | Access string
  | Execv string "string list"
  | Execl string "string list"
  | System string

text \<open>The events that start another program.\<close>

fun is_launch :: "event \<Rightarrow> bool" where
  "is_launch (Execv p args) = True"
| "is_launch (Execl p args) = True"
| "is_launch (System c) = True"
| "is_launch (Stderr m) = False"
| "is_launch (Perror m) = False"
| "is_launch (Access p) = False"

text \<open>
  How a run of the program can end other than by returning from \<^verbatim>\<open>main\<close>:
  a failed \<^verbatim>\<open>assert\<close> (\<open>Abort\<close>), undefined behaviour (\<open>Fault\<close>: a store or read outside
  a heap block or through NULL, or reaching \<^verbatim>\<open>__builtin_unreachable()\<close>), or waiting for
  a child that never ends (\<open>Hang\<close>).
\<close>

datatype crash = Abort | Fault | Hang

text \<open>
  Everything the program asks of its environment.
  \<^item> \<open>euid\<close>: the value of \<^verbatim>\<open>geteuid()\<close>.
  \<^item> \<open>present p\<close>: \<^verbatim>\<open>access(p, F_OK) == 0\<close>.
  \<^item> \<open>heap k n\<close>: what the allocation call number \<open>k\<close> of the run delivers when it asks
    for \<open>n\<close> bytes (\<^verbatim>\<open>malloc\<close>, \<^verbatim>\<open>calloc\<close> and \<^verbatim>\<open>realloc\<close> are counted together, from 0):
    \<open>None\<close> for NULL, or the bytes of the block as delivered. The length of the list is
    the number of bytes the program may use; an allocator that grants exactly what is
    asked delivers \<open>n\<close> bytes. \<^verbatim>\<open>malloc\<close> does not clear the block, so the bytes are
    whatever the allocator left there: a block that the program freed earlier may come
    back with what was written to it since. Two calls of the same size need not be
    answered alike.
  \<^item> \<open>ptr_size\<close>: \<^verbatim>\<open>sizeof(char *)\<close>.
  \<^item> \<open>fork_run\<close>, \<open>fork_notify\<close>: whether \<^verbatim>\<open>fork()\<close> succeeds in \<^verbatim>\<open>run_prog\<close> and in
    \<^verbatim>\<open>notify\<close>.
  \<^item> \<open>exec p args\<close>: \<open>None\<close> when \<^verbatim>\<open>execv\<close>/\<^verbatim>\<open>execl\<close> of \<open>p\<close> fails and returns, else how
    the new process image ends.
  \<^item> \<open>shell c\<close>: for \<^verbatim>\<open>system(c)\<close>, \<open>None\<close> when no child could be created, else how the
    shell running \<open>c\<close> ends.
  \<^item> \<open>NOTIFY_SEND_TIMEOUT\<close>, \<open>NOTIFY_SEND_URGENCY\<close>: the two macros of \<^verbatim>\<open>config.h\<close>, a
    header that is not among the sources.
  \<^item> \<open>body_end_len\<close>: the value found in the local variable of that name, which
    \<^verbatim>\<open>notify_status\<close> of the two older revisions reads without ever assigning it.
\<close>

record env =
  euid :: nat
  present :: "string \<Rightarrow> bool"
  heap :: "nat \<Rightarrow> nat \<Rightarrow> char list option"
  ptr_size :: nat
  fork_run :: bool
  fork_notify :: bool
  exec :: "string \<Rightarrow> string list \<Rightarrow> ending option"
  shell :: "string \<Rightarrow> ending option"
  NOTIFY_SEND_TIMEOUT :: string
  NOTIFY_SEND_URGENCY :: string
  body_end_len :: nat

text \<open>
  The status word \<^verbatim>\<open>waitpid\<close> stores for a child that ended, and the macro
  \<^verbatim>\<open>WEXITSTATUS(status)\<close> of \<^verbatim>\<open><sys/wait.h>\<close>, \<^verbatim>\<open>((status) & 0xff00) >> 8\<close>.
  A process that returns \<open>r\<close> from \<^verbatim>\<open>main\<close> has exit status \<open>r & 0377\<close>.
\<close>

definition wait_status :: "ending \<Rightarrow> int" where
  "wait_status t =
     (case t of
        Exited n \<Rightarrow> int (n mod 256) * 256
      | Signaled s \<Rightarrow> int (s mod 128)
      | Forever \<Rightarrow> 0)"

definition WEXITSTATUS :: "int \<Rightarrow> int" where
  "WEXITSTATUS status = (status div 256) mod 256"

definition exit_status :: "int \<Rightarrow> nat" where
  "exit_status r = nat (r mod 256)"

subsection \<open>Constants of the program\<close>

definition DEFAULT_BINDIR_PREFIX :: string where
  "DEFAULT_BINDIR_PREFIX = ''/bin/''"

definition NOTIFY_SEND_BINLOC :: string where
  "NOTIFY_SEND_BINLOC = DEFAULT_BINDIR_PREFIX @ ''notify-send''"

definition SUCCESS_SUMMARY :: string where
  "SUCCESS_SUMMARY = ''Success''"

definition FAILURE_SUMMARY :: string where
  "FAILURE_SUMMARY = ''Error''"

definition MAX_BODY_BUFSIZE :: nat where
  "MAX_BODY_BUFSIZE = 256"

subsection \<open>The C library calls the program makes on buffers\<close>

definition NUL :: char where
  "NUL = CHR 0x00"

text \<open>The C string that starts at the first byte of a buffer.\<close>

definition c_str :: "char list \<Rightarrow> string" where
  "c_str buf = takeWhile (\<lambda>c. c \<noteq> NUL) buf"

text \<open>
  \<^verbatim>\<open>strcat(dest, src)\<close>: \<open>src\<close> and a NUL are written where the string found in \<open>dest\<close>
  ends. \<open>None\<close> when no NUL lies inside the block, or when the result does not fit in it.
\<close>

definition strcat :: "char list \<Rightarrow> string \<Rightarrow> char list option" where
  "strcat dest src =
     (let k = length (c_str dest) in
      if k = length dest then None
      else if length dest < k + length src + 1 then None
      else Some (take k dest @ src @ [NUL] @ drop (k + length src + 1) dest))"

text \<open>
  \<^verbatim>\<open>snprintf(buf, n, ...)\<close> for the formatted text \<open>txt\<close>: at most \<open>n - 1\<close> characters
  of it are stored, then a NUL. \<open>None\<close> when that runs past the block.
\<close>

definition snprintf :: "char list \<Rightarrow> nat \<Rightarrow> string \<Rightarrow> char list option" where
  "snprintf buf n txt =
     (if n = 0 then Some buf
      else let out = take (n - 1) txt @ [NUL] in
        if length buf < length out then None
        else Some (out @ drop (length out) buf))"

text \<open>The conversion \<^verbatim>\<open>%d\<close> of \<^verbatim>\<open>printf\<close>.\<close>

fun dec_nat :: "nat \<Rightarrow> string" where
  "dec_nat n =
     (if n < 10 then [''0123456789'' ! n]
      else dec_nat (n div 10) @ [''0123456789'' ! (n mod 10)])"

declare dec_nat.simps [simp del]

definition dec_int :: "int \<Rightarrow> string" where
  "dec_int i = (if i < 0 then CHR ''-'' # dec_nat (nat (- i)) else dec_nat (nat i))"

subsection \<open>Arrays of \<^verbatim>\<open>char *\<close> on the heap\<close>

text \<open>
  A \<^verbatim>\<open>char *\<close> is NULL (\<open>None\<close>) or a string. A block of them is the list of its cells;
  a cell the program has not stored to is indeterminate (\<open>None\<close>). A block of \<open>n\<close> usable
  bytes has \<open>n div sizeof(char *)\<close> cells. \<^verbatim>\<open>realloc\<close> keeps the cells that fit in the new
  block. The first argument after the environment is the number of the allocation call.
\<close>

type_synonym ptr = "string option"

type_synonym ptr_block = "ptr option list"

definition malloc_ptrs :: "env \<Rightarrow> nat \<Rightarrow> nat \<Rightarrow> ptr_block option" where
  "malloc_ptrs e k n =
     (case heap e k n of
        None \<Rightarrow> None
      | Some bytes \<Rightarrow> Some (replicate (length bytes div ptr_size e) None))"

definition realloc_ptrs :: "env \<Rightarrow> nat \<Rightarrow> ptr_block \<Rightarrow> nat \<Rightarrow> ptr_block option" where
  "realloc_ptrs e k blk n =
     (case heap e k n of
        None \<Rightarrow> None
      | Some bytes \<Rightarrow>
          (let cells = length bytes div ptr_size e
           in Some (take cells blk @ replicate (cells - length blk) None)))"

text \<open>\<^verbatim>\<open>blk[i] = p\<close>; \<open>None\<close> when cell \<open>i\<close> lies outside the block.\<close>

definition store_ptr :: "ptr_block \<Rightarrow> nat \<Rightarrow> ptr \<Rightarrow> ptr_block option" where
  "store_ptr blk i p = (if i < length blk then Some (blk[i := Some p]) else None)"

text \<open>
  What \<^verbatim>\<open>execv\<close> reads from its \<^verbatim>\<open>argv\<close>: the strings up to the first NULL cell.
  \<open>None\<close> when it meets an indeterminate cell or the end of the block first.
\<close>

fun read_argv :: "ptr_block \<Rightarrow> string list option" where
  "read_argv [] = None"
| "read_argv (None # cells) = None"
| "read_argv (Some None # cells) = Some []"
| "read_argv (Some (Some s) # cells) =
     (case read_argv cells of None \<Rightarrow> None | Some ss \<Rightarrow> Some (s # ss))"

subsection \<open>\<^verbatim>\<open>create_progpath\<close>, \<^verbatim>\<open>prog_exists\<close>, \<^verbatim>\<open>run_prog\<close>\<close>

text \<open>
  \<^verbatim>\<open>create_progpath\<close> (cmdnotify.c, lines 263-278): a block of
  \<open>strlen(prefix) + strlen(progname) + 1\<close> bytes from \<^verbatim>\<open>malloc\<close>, \<^verbatim>\<open>assert\<close>ed to be there,
  then two calls of \<^verbatim>\<open>strcat\<close> on it. The result is the buffer. \<open>k\<close> is the number of
  the allocation call it makes; every call of \<^verbatim>\<open>create_progpath\<close> takes a block of its
  own, and the caller frees it.
\<close>

definition create_progpath :: "env \<Rightarrow> nat \<Rightarrow> string \<Rightarrow> crash + char list" where
  "create_progpath e k progname =
     (let pathlen = length DEFAULT_BINDIR_PREFIX + length progname in
      case heap e k (pathlen + 1) of
        None \<Rightarrow> Inl Abort
      | Some progpath \<Rightarrow>
          (case strcat progpath DEFAULT_BINDIR_PREFIX of
             None \<Rightarrow> Inl Fault
           | Some progpath1 \<Rightarrow>
               (case strcat progpath1 progname of
                  None \<Rightarrow> Inl Fault
                | Some progpath2 \<Rightarrow> Inr progpath2)))"

text \<open>\<^verbatim>\<open>prog_exists\<close> (lines 286-295).\<close>

definition prog_exists :: "env \<Rightarrow> nat \<Rightarrow> string \<Rightarrow> (crash + bool) \<times> event list" where
  "prog_exists e k progname =
     (case create_progpath e k progname of
        Inl c \<Rightarrow> (Inl c, [])
      | Inr path \<Rightarrow> (Inr (present e (c_str path)), [Access (c_str path)]))"

text \<open>
  \<^verbatim>\<open>run_prog\<close> (lines 231-252; \<^verbatim>\<open>part_000\<close>, lines 49-80, has the body of
  \<^verbatim>\<open>create_progpath\<close> written out in place). It makes the path anew, in a block of
  its own (allocation call \<open>k\<close>): the path that \<^verbatim>\<open>prog_exists\<close> checked was freed there.
  The child calls \<^verbatim>\<open>execv\<close>; when that returns, it reaches \<^verbatim>\<open>__builtin_unreachable()\<close>.
  The parent waits for the child and returns \<^verbatim>\<open>WEXITSTATUS(status)\<close>.
\<close>

definition run_prog ::
  "env \<Rightarrow> nat \<Rightarrow> string \<Rightarrow> ptr_block \<Rightarrow> (crash + int) \<times> event list" where
  "run_prog e k progname argv =
     (case create_progpath e k progname of
        Inl c \<Rightarrow> (Inl c, [])
      | Inr progpath \<Rightarrow>
          if \<not> fork_run e then (Inl Abort, [])
          else
            (case read_argv argv of
               None \<Rightarrow> (Inl Fault, [])
             | Some args \<Rightarrow>
                 (case exec e (c_str progpath) args of
                    None \<Rightarrow> (Inl Fault, [Execv (c_str progpath) args])
                  | Some Forever \<Rightarrow> (Inl Hang, [Execv (c_str progpath) args])
                  | Some t \<Rightarrow>
                      (Inr (WEXITSTATUS (wait_status t)), [Execv (c_str progpath) args]))))"

subsection \<open>\<^verbatim>\<open>notify\<close> and \<^verbatim>\<open>notify_status\<close>\<close>

text \<open>
  \<^verbatim>\<open>notify\<close> (lines 300-323). The result of \<^verbatim>\<open>fork\<close> is not checked: when it fails no
  child runs and \<^verbatim>\<open>wait\<close> returns at once.
\<close>

definition notify_args :: "env \<Rightarrow> string \<Rightarrow> string \<Rightarrow> string list" where
  "notify_args e summary body =
     [NOTIFY_SEND_BINLOC, ''-t'', NOTIFY_SEND_TIMEOUT e, ''-u'', NOTIFY_SEND_URGENCY e,
      summary, body]"

definition notify :: "env \<Rightarrow> string \<Rightarrow> string \<Rightarrow> (crash + unit) \<times> event list" where
  "notify e summary body =
     (if \<not> fork_notify e then (Inr (), [])
      else
        (let args = notify_args e summary body
         in case exec e NOTIFY_SEND_BINLOC args of
              None \<Rightarrow> (Inl Fault, [Execl NOTIFY_SEND_BINLOC args])
            | Some Forever \<Rightarrow> (Inl Hang, [Execl NOTIFY_SEND_BINLOC args])
            | Some t \<Rightarrow> (Inr (), [Execl NOTIFY_SEND_BINLOC args])))"

text \<open>
  \<^verbatim>\<open>notify_status\<close> (lines 331-349). Its two halves are named: the choice of the
  summary (lines 337-341) and the text that
  \<^verbatim>\<open>snprintf(body, MAX_BODY_BUFSIZE, "'%s' returned %d", cmd, status)\<close> formats and stores
  (lines 344-346). The block comes from \<^verbatim>\<open>malloc(MAX_BODY_BUFSIZE + strlen(cmd))\<close>,
  allocation call \<open>k\<close>, and is not checked for NULL.
\<close>

definition notify_status_summary :: "int \<Rightarrow> string" where
  "notify_status_summary status = (if status = 0 then SUCCESS_SUMMARY else FAILURE_SUMMARY)"

definition body_format :: "string \<Rightarrow> int \<Rightarrow> string" where
  "body_format cmd status = [CHR 0x27] @ cmd @ [CHR 0x27] @ '' returned '' @ dec_int status"

definition notify_status_body :: "env \<Rightarrow> nat \<Rightarrow> int \<Rightarrow> string \<Rightarrow> crash + string" where
  "notify_status_body e k status cmd =
     (case heap e k (MAX_BODY_BUFSIZE + length cmd) of
        None \<Rightarrow> Inl Fault
      | Some body \<Rightarrow>
          (case snprintf body MAX_BODY_BUFSIZE (body_format cmd status) of
             None \<Rightarrow> Inl Fault
           | Some body1 \<Rightarrow> Inr (c_str body1)))"

definition notify_status ::
  "env \<Rightarrow> nat \<Rightarrow> int \<Rightarrow> string \<Rightarrow> (crash + unit) \<times> event list" where
  "notify_status e k status cmd =
     (case notify_status_body e k status cmd of
        Inl c \<Rightarrow> (Inl c, [])
      | Inr body \<Rightarrow> notify e (notify_status_summary status) body)"

subsection \<open>\<^verbatim>\<open>main\<close>\<close>

text \<open>
  The loop of \<^verbatim>\<open>main\<close> (lines 393-411) that copies \<^verbatim>\<open>argv[2..]\<close>: each round grows the
  block to \<open>argbuf_entries * sizeof(char *)\<close> bytes and stores \<^verbatim>\<open>argv[i]\<close> in cell
  \<open>i - 1\<close>. The result of \<^verbatim>\<open>realloc\<close> is not checked. \<open>k\<close> counts the allocation calls;
  the loop returns the count it has reached.
\<close>

function arg_loop ::
  "env \<Rightarrow> string list \<Rightarrow> nat \<Rightarrow> nat \<Rightarrow> ptr_block \<Rightarrow> nat \<Rightarrow>
     crash + (nat \<times> ptr_block \<times> nat)" where
  "arg_loop e argv i argbuf_entries argbuf k =
     (if i < length argv then
        (let entries = argbuf_entries + 1;
             newsize = entries * ptr_size e
         in case realloc_ptrs e k argbuf newsize of
              None \<Rightarrow> Inl Fault
            | Some argbuf1 \<Rightarrow>
                (case store_ptr argbuf1 (i - 1) (Some (argv ! i)) of
                   None \<Rightarrow> Inl Fault
                 | Some argbuf2 \<Rightarrow> arg_loop e argv (i + 1) entries argbuf2 (k + 1)))
      else Inr (argbuf_entries, argbuf, k))"
  by pat_completeness auto
termination
  by (relation "measure (\<lambda>(e, argv, i, n, b, k). length argv - i)") auto

declare arg_loop.simps [simp del]

text \<open>
  The assembly of the argument vector in \<^verbatim>\<open>main\<close> (lines 390-415): one cell from
  \<^verbatim>\<open>malloc\<close> for \<^verbatim>\<open>argv[1]\<close>, the loop, then
  \<^verbatim>\<open>realloc(argbuf, sizeof(char *) + (argbuf_entries + 1))\<close> and the NULL stored in cell
  \<open>argbuf_entries\<close>. \<open>k\<close> is the number of its first allocation call; the result is the
  block and the number of the next call.
\<close>

definition main_argbuf :: "env \<Rightarrow> nat \<Rightarrow> string list \<Rightarrow> crash + (ptr_block \<times> nat)" where
  "main_argbuf e k argv =
     (case malloc_ptrs e k (ptr_size e) of
        None \<Rightarrow> Inl Fault
      | Some argbuf0 \<Rightarrow>
          (case store_ptr argbuf0 0 (Some (argv ! 1)) of
             None \<Rightarrow> Inl Fault
           | Some argbuf1 \<Rightarrow>
               (case arg_loop e argv 2 1 argbuf1 (k + 1) of
                  Inl c \<Rightarrow> Inl c
                | Inr (argbuf_entries, argbuf2, k1) \<Rightarrow>
                    (case realloc_ptrs e k1 argbuf2 (ptr_size e + (argbuf_entries + 1)) of
                       None \<Rightarrow> Inl Fault
                     | Some argbuf3 \<Rightarrow>
                         (case store_ptr argbuf3 argbuf_entries None of
                            None \<Rightarrow> Inl Fault
                          | Some argbuf4 \<Rightarrow> Inr (argbuf4, k1 + 1))))))"

text \<open>
  What \<^verbatim>\<open>main\<close> does once the checks have passed (lines 390-422): assemble the
  argument vector, run the program, notify, return the status. \<open>k\<close> is the number of
  allocation calls made before.
\<close>

definition main_run :: "env \<Rightarrow> nat \<Rightarrow> string list \<Rightarrow> (crash + int) \<times> event list" where
  "main_run e k argv =
     (case main_argbuf e k argv of
        Inl c \<Rightarrow> (Inl c, [])
      | Inr (argbuf, k1) \<Rightarrow>
          (case run_prog e k1 (argv ! 1) argbuf of
             (Inl c, evs) \<Rightarrow> (Inl c, evs)
           | (Inr status, evs) \<Rightarrow>
               (case notify_status e (k1 + 1) status (argv ! 1) of
                  (Inl c, evs1) \<Rightarrow> (Inl c, evs @ evs1)
                | (Inr u, evs1) \<Rightarrow> (Inr status, evs @ evs1))))"

text \<open>
  \<^verbatim>\<open>main\<close> (lines 351-423). \<open>argv\<close> is the whole argument list, \<^verbatim>\<open>argv[0]\<close> included,
  and \<^verbatim>\<open>argc\<close> its length. The result is what \<^verbatim>\<open>main\<close> returns, or how the run broke
  off, and the events up to there. The path made in \<^verbatim>\<open>prog_exists\<close> comes from allocation
  call 0; the calls after it are counted from 1.
\<close>

definition main :: "env \<Rightarrow> string list \<Rightarrow> (crash + int) \<times> event list" where
  "main e argv =
     (if length argv < 2 then
        (Inr 1, [Stderr ''Error: Too few arguments!\<newline>''])
      else if euid e = 0 then
        (Inr 1, [Stderr ''Please do not run as root.\<newline>''])
      else if \<not> present e ''/bin/notify-send'' then
        (Inr 1, [Access ''/bin/notify-send'', Stderr ''Error: notify-send not found!\<newline>''])
      else
        (case prog_exists e 0 (argv ! 1) of
           (Inl c, evs) \<Rightarrow> (Inl c, Access ''/bin/notify-send'' # evs)
         | (Inr found, evs) \<Rightarrow>
             if \<not> found then
               (Inr 1, Access ''/bin/notify-send'' # evs @
                  [Stderr (''Failed to execute '' @ DEFAULT_BINDIR_PREFIX @ argv ! 1 @ ''\<newline>''),
                   Perror ''access''])
             else
               (case main_run e 1 argv of
                  (r, evs1) \<Rightarrow> (r, Access ''/bin/notify-send'' # evs @ evs1))))"

subsection \<open>The two older revisions\<close>

text \<open>
  \<^verbatim>\<open>notify\<close> of \<^verbatim>\<open>part_000\<close> (lines 82-107) and of the \<^verbatim>\<open>system()\<close> revision (cmdnotify.c,
  lines 45-70): the timeout is the literal \<^verbatim>\<open>"3500"\<close> and no urgency is passed.
\<close>

definition notify_args_p0 :: "string \<Rightarrow> string \<Rightarrow> string list" where
  "notify_args_p0 summary body = [NOTIFY_SEND_BINLOC, ''-t'', ''3500'', summary, body]"

definition notify_p0 :: "env \<Rightarrow> string \<Rightarrow> string \<Rightarrow> (crash + unit) \<times> event list" where
  "notify_p0 e summary body =
     (if \<not> fork_notify e then (Inr (), [])
      else
        (let args = notify_args_p0 summary body
         in case exec e NOTIFY_SEND_BINLOC args of
              None \<Rightarrow> (Inl Fault, [Execl NOTIFY_SEND_BINLOC args])
            | Some Forever \<Rightarrow> (Inl Hang, [Execl NOTIFY_SEND_BINLOC args])
            | Some t \<Rightarrow> (Inr (), [Execl NOTIFY_SEND_BINLOC args])))"

text \<open>
  \<^verbatim>\<open>notify_status\<close> of the same two revisions (\<^verbatim>\<open>part_000\<close>, lines 131-160; cmdnotify.c,
  lines 94-123). The text formatted is \<^verbatim>\<open>"'%s' %s\n"\<close> with the command and one of two
  endings. \<open>body_len\<close> is \<open>strlen(cmd) + 2 + strlen(ending) + 1\<close>; the block asked of
  \<^verbatim>\<open>calloc\<close> has \<open>body_len + body_end_len\<close> bytes, computed in \<^verbatim>\<open>size_t\<close> (taken to be as
  wide as a pointer), where \<open>body_end_len\<close> was never assigned. \<^verbatim>\<open>snprintf\<close> is given
  \<open>body_len\<close> as its bound.
\<close>

definition body_end_success :: string where
  "body_end_success = ''has finished and returned 0\<newline>''"

definition body_end_fail :: string where
  "body_end_fail = ''has returned non-zero value\<newline>''"

definition body_format_p0 :: "string \<Rightarrow> string \<Rightarrow> string" where
  "body_format_p0 cmd body_end = [CHR 0x27] @ cmd @ [CHR 0x27] @ '' '' @ body_end @ ''\<newline>''"

definition notify_status_body_p0 :: "env \<Rightarrow> nat \<Rightarrow> int \<Rightarrow> string \<Rightarrow> crash + string" where
  "notify_status_body_p0 e k status cmd =
     (let body_end_ptr = (if status = 0 then body_end_success else body_end_fail);
          body_len = length cmd + 2 + (length body_end_ptr + 1)
      in case heap e k (nat ((int body_len + int (body_end_len e)) mod 2 ^ (8 * ptr_size e))) of
           None \<Rightarrow> Inl Abort
         | Some body \<Rightarrow>
             (case snprintf body body_len (body_format_p0 cmd body_end_ptr) of
                None \<Rightarrow> Inl Fault
              | Some body1 \<Rightarrow> Inr (c_str body1)))"

definition notify_status_p0 ::
  "env \<Rightarrow> nat \<Rightarrow> int \<Rightarrow> string \<Rightarrow> (crash + unit) \<times> event list" where
  "notify_status_p0 e k status cmd =
     (case notify_status_body_p0 e k status cmd of
        Inl c \<Rightarrow> (Inl c, [])
      | Inr body \<Rightarrow> notify_p0 e (notify_status_summary status) body)"

text \<open>
  \<^verbatim>\<open>main\<close> of \<^verbatim>\<open>part_000\<close> (lines 162-218): the argument count and the notifier are
  checked; there is no check of the user id and none of the target. The assembly of the
  argument vector (lines 185-210) and \<^verbatim>\<open>run_prog\<close> are those of the latest revision. Its
  allocation calls are counted from 0.
\<close>

definition main_p0 :: "env \<Rightarrow> string list \<Rightarrow> (crash + int) \<times> event list" where
  "main_p0 e argv =
     (if length argv < 2 then
        (Inr 1, [Stderr ''Error: Too few arguments!\<newline>''])
      else if \<not> present e ''/bin/notify-send'' then
        (Inr 1, [Access ''/bin/notify-send'', Stderr ''Error: notify-send not found!\<newline>''])
      else
        (case main_argbuf e 0 argv of
           Inl c \<Rightarrow> (Inl c, [Access ''/bin/notify-send''])
         | Inr (argbuf, k1) \<Rightarrow>
             (case run_prog e k1 (argv ! 1) argbuf of
                (Inl c, evs) \<Rightarrow> (Inl c, Access ''/bin/notify-send'' # evs)
              | (Inr status, evs) \<Rightarrow>
                  (case notify_status_p0 e (k1 + 1) status (argv ! 1) of
                     (Inl c, evs1) \<Rightarrow> (Inl c, Access ''/bin/notify-send'' # evs @ evs1)
                   | (Inr u, evs1) \<Rightarrow> (Inr status, Access ''/bin/notify-send'' # evs @ evs1)))))"

text \<open>
  The \<^verbatim>\<open>system()\<close> revision (cmdnotify.c, lines 81-92 and 125-179). \<^verbatim>\<open>append\<close> copies
  \<open>src_len\<close> bytes to where \<open>*dest_ptr\<close> points and advances it; \<open>None\<close> when the copy runs
  past the block. \<^verbatim>\<open>main\<close> sums \<open>strlen(argv[i]) + 1\<close> over the arguments, takes that many
  bytes and one more from \<^verbatim>\<open>malloc\<close>, appends every argument and a space, stores the NUL,
  gives the buffer to \<^verbatim>\<open>system\<close> and returns what \<^verbatim>\<open>system\<close> returned: the wait status
  of the shell, or -1. The buffer comes from allocation call 0, the body of the
  notification from call 1.
\<close>

definition append_bytes :: "char list \<times> nat \<Rightarrow> string \<Rightarrow> (char list \<times> nat) option" where
  "append_bytes dest src =
     (case dest of (buf, pos) \<Rightarrow>
        if length buf < pos + length src then None
        else Some (take pos buf @ src @ drop (pos + length src) buf, pos + length src))"

fun cmdbuf_size :: "string list \<Rightarrow> nat" where
  "cmdbuf_size [] = 0"
| "cmdbuf_size (a # as) = (length a + 1) + cmdbuf_size as"

fun cmdbuf_fill :: "char list \<times> nat \<Rightarrow> string list \<Rightarrow> (char list \<times> nat) option" where
  "cmdbuf_fill dest [] = Some dest"
| "cmdbuf_fill dest (a # as) =
     (case append_bytes dest a of
        None \<Rightarrow> None
      | Some dest1 \<Rightarrow>
          (case append_bytes dest1 '' '' of
             None \<Rightarrow> None
           | Some dest2 \<Rightarrow> cmdbuf_fill dest2 as))"

definition main_cmdbuf :: "env \<Rightarrow> string list \<Rightarrow> crash + string" where
  "main_cmdbuf e argv =
     (let cmdbuf_len = cmdbuf_size (tl argv) in
      case heap e 0 (cmdbuf_len + 1) of
        None \<Rightarrow> Inl Abort
      | Some cmdbuf \<Rightarrow>
          (case cmdbuf_fill (cmdbuf, 0) (tl argv) of
             None \<Rightarrow> Inl Fault
           | Some (buf, pos) \<Rightarrow>
               if pos < length buf then Inr (c_str (buf[pos := NUL])) else Inl Fault))"

definition system_call :: "env \<Rightarrow> string \<Rightarrow> (crash + int) \<times> event list" where
  "system_call e cmd =
     (case shell e cmd of
        None \<Rightarrow> (Inr (- 1), [System cmd])
      | Some Forever \<Rightarrow> (Inl Hang, [System cmd])
      | Some t \<Rightarrow> (Inr (wait_status t), [System cmd]))"

definition main_sys :: "env \<Rightarrow> string list \<Rightarrow> (crash + int) \<times> event list" where
  "main_sys e argv =
     (if length argv < 2 then
        (Inr 1, [Stderr ''Error: Too few arguments!\<newline>''])
      else if \<not> present e ''/bin/notify-send'' then
        (Inr 1, [Access ''/bin/notify-send'', Stderr ''Error: notify-send not found!\<newline>''])
      else
        (case main_cmdbuf e argv of
           Inl c \<Rightarrow> (Inl c, [Access ''/bin/notify-send''])
         | Inr cmdbuf \<Rightarrow>
             (case system_call e cmdbuf of
                (Inl c, evs) \<Rightarrow> (Inl c, Access ''/bin/notify-send'' # evs)
              | (Inr status, evs) \<Rightarrow>
                  (case notify_status_p0 e 1 status (argv ! 1) of
                     (Inl c, evs1) \<Rightarrow> (Inl c, Access ''/bin/notify-send'' # evs @ evs1)
                   | (Inr u, evs1) \<Rightarrow> (Inr status, Access ''/bin/notify-send'' # evs @ evs1)))))"

subsection \<open>A sample environment\<close>

text \<open>
  Concrete runs below use this environment: an ordinary user on a 64-bit machine, with
  \<^verbatim>\<open>/bin/notify-send\<close>, \<^verbatim>\<open>/bin/false\<close>, \<^verbatim>\<open>/bin/ls\<close> and \<^verbatim>\<open>/bin/exit3_nineteen_chrs\<close>
  installed, where \<^verbatim>\<open>false\<close> exits with 1, \<^verbatim>\<open>exit3_nineteen_chrs\<close> with 3 and the other two
  with 0. The allocator rounds a request up to the next block of \<open>16 k + 8\<close> usable
  bytes, 24 at least, as the allocators of common 64-bit C libraries do, and every block
  it hands out holds zero bytes.
\<close>

definition sample_heap :: "nat \<Rightarrow> nat \<Rightarrow> char list option" where
  "sample_heap k n = Some (replicate (max 24 ((n + 23) div 16 * 16 - 8)) NUL)"

definition sample_env :: env where
  "sample_env =
     \<lparr>euid = 1000,
      present = (\<lambda>p. p \<in> set [''/bin/notify-send'', ''/bin/false'', ''/bin/ls'',
                                ''/bin/exit3_nineteen_chrs'']),
      heap = sample_heap,
      ptr_size = 8,
      fork_run = True,
      fork_notify = True,
      exec = (\<lambda>p args. if p = ''/bin/false'' then Some (Exited 1)
                else if p = ''/bin/exit3_nineteen_chrs'' then Some (Exited 3)
                else if p \<in> set [''/bin/ls'', ''/bin/notify-send''] then Some (Exited 0)
                else None),
      shell = (\<lambda>c. if c = ''false '' then Some (Exited 1) else Some (Exited 0)),
      NOTIFY_SEND_TIMEOUT = ''3500'',
      NOTIFY_SEND_URGENCY = ''normal'',
      body_end_len = 0\<rparr>"

text \<open>
  Three other allocators: one that grants exactly the bytes asked for; one whose blocks
  are recycled, so that the first byte of a block is not zero; and one whose first block
  is fresh and holds zero bytes, while every later block is a recycled one.
\<close>

definition exact_heap :: "nat \<Rightarrow> nat \<Rightarrow> char list option" where
  "exact_heap k n = Some (replicate n NUL)"

definition recycled_heap :: "nat \<Rightarrow> nat \<Rightarrow> char list option" where
  "recycled_heap k n =
     Some (CHR ''x'' # replicate (max 24 ((n + 23) div 16 * 16 - 8) - 1) NUL)"

definition reused_heap :: "nat \<Rightarrow> nat \<Rightarrow> char list option" where
  "reused_heap k n = (if k = 0 then sample_heap k n else recycled_heap k n)"

section \<open>Properties\<close>

subsection \<open>Status words\<close>

lemma WEXITSTATUS_Exited: "n < 256 \<Longrightarrow> WEXITSTATUS (wait_status (Exited n)) = int n"
  by (simp add: WEXITSTATUS_def wait_status_def)

lemma exit_status_small: "n < 256 \<Longrightarrow> exit_status (int n) = n"
  by (simp add: exit_status_def)

subsection \<open>The argument vector, when its assembly does not fault\<close>

lemma realloc_store_take:
  assumes "realloc_ptrs e k blk n = Some blk1"
    and "store_ptr blk1 m p = Some blk2"
    and "m \<le> length blk"
  shows "take (Suc m) blk2 = take m blk @ [Some p] \<and> Suc m \<le> length blk2"
proof -
  from assms(1) obtain c where c: "blk1 = take c blk @ replicate (c - length blk) None"
    by (auto simp: realloc_ptrs_def Let_def split: option.splits)
  from assms(2) have m: "m < length blk1" and b2: "blk2 = blk1[m := Some p]"
    by (auto simp: store_ptr_def split: if_splits)
  have lc: "length blk1 = c" using c by auto
  have "take m blk1 = take m blk" using c m lc assms(3) by (simp add: min_def)
  then show ?thesis using m b2 by (simp add: take_Suc_conv_app_nth)
qed

text \<open>
  The loop invariant: on entry to the round for index \<open>i\<close>, the first \<open>i - 1\<close> cells hold
  \<^verbatim>\<open>argv[1]\<close> to \<^verbatim>\<open>argv[i - 1]\<close>.
\<close>

lemma arg_loop_inv:
  "arg_loop e argv i n blk k = Inr (n', blk', k') \<Longrightarrow> Suc n = i \<Longrightarrow> i \<le> length argv \<Longrightarrow>
   n \<le> length blk \<Longrightarrow> take n blk = map (\<lambda>s. Some (Some s)) (take n (tl argv)) \<Longrightarrow>
   Suc n' = length argv \<and> n' \<le> length blk' \<and>
   take n' blk' = map (\<lambda>s. Some (Some s)) (tl argv)"
proof (induction e argv i n blk k rule: arg_loop.induct)
  case (1 e argv i n blk k)
  show ?case
  proof (cases "i < length argv")
    case False
    with "1.prems" have "n' = n" "blk' = blk" "i = length argv"
      by (auto simp: arg_loop.simps)
    with "1.prems" show ?thesis by simp
  next
    case True
    from "1.prems"(1) True obtain blk1 blk2 where
      r: "realloc_ptrs e k blk ((n + 1) * ptr_size e) = Some blk1" and
      s: "store_ptr blk1 (i - 1) (Some (argv ! i)) = Some blk2" and
      rec: "arg_loop e argv (i + 1) (n + 1) blk2 (k + 1) = Inr (n', blk', k')"
      by (auto simp: arg_loop.simps [of e argv i n blk k] Let_def split: option.splits)
    have i1: "i - 1 = n" using "1.prems"(2) by simp
    from realloc_store_take [OF r s [unfolded i1] "1.prems"(4)]
    have t: "take (Suc n) blk2 = take n blk @ [Some (Some (argv ! i))]"
      and l: "Suc n \<le> length blk2" by auto
    have nth: "tl argv ! n = argv ! i" using "1.prems"(2) True by (simp add: nth_tl)
    have "n < length (tl argv)" using "1.prems"(2) True by simp
    then have "take (Suc n) (tl argv) = take n (tl argv) @ [argv ! i]"
      using nth by (simp add: take_Suc_conv_app_nth)
    with t "1.prems"(5)
    have inv: "take (n + 1) blk2 = map (\<lambda>s. Some (Some s)) (take (n + 1) (tl argv))"
      by simp
    show ?thesis
      using "1.IH" [OF True refl refl r s rec] "1.prems"(2) True l inv by simp
  qed
qed

lemma read_argv_strings:
  "read_argv (map (\<lambda>s. Some (Some s)) xs @ Some None # rest) = Some xs"
  by (induction xs) auto

lemma main_argbuf_content:
  assumes "main_argbuf e k argv = Inr (argbuf, k')" and "2 \<le> length argv"
  shows "read_argv argbuf = Some (tl argv)"
proof -
  from assms(1) obtain a0 a1 n a2 a3 k1 where
    s0: "store_ptr a0 0 (Some (argv ! 1)) = Some a1" and
    lp: "arg_loop e argv 2 1 a1 (k + 1) = Inr (n, a2, k1)" and
    r: "realloc_ptrs e k1 a2 (ptr_size e + (n + 1)) = Some a3" and
    s: "store_ptr a3 n None = Some argbuf"
    by (auto simp: main_argbuf_def split: option.splits sum.splits)
  from s0 have a1: "a1 = a0[0 := Some (Some (argv ! 1))]" "0 < length a0"
    by (auto simp: store_ptr_def split: if_splits)
  have tl1: "take 1 (tl argv) = [argv ! 1]" using assms(2)
    by (cases argv; cases "tl argv") auto
  have "take 1 a1 = map (\<lambda>s. Some (Some s)) (take 1 (tl argv))"
    using a1 tl1 by (cases a0) auto
  from arg_loop_inv [OF lp _ assms(2) _ this] a1
  have n: "Suc n = length argv" "n \<le> length a2"
    "take n a2 = map (\<lambda>s. Some (Some s)) (tl argv)"
    by auto
  from realloc_store_take [OF r s n(2)]
  have "take (Suc n) argbuf = take n a2 @ [Some None]"
    by simp
  then have "argbuf = map (\<lambda>s. Some (Some s)) (tl argv) @ Some None # drop (Suc n) argbuf"
    using n(3) by (metis append.assoc append_Cons append_Nil append_take_drop_id)
  then show ?thesis using read_argv_strings by metis
qed

subsection \<open>What the notifier is given\<close>

lemma takeWhile_stop: "\<not> P y \<Longrightarrow> takeWhile P (xs @ y # ys) = takeWhile P xs"
  by (induction xs) auto

lemma c_str_snprintf:
  "snprintf buf n txt = Some buf1 \<Longrightarrow> 0 < n \<Longrightarrow> c_str buf1 = c_str (take (n - 1) txt)"
  by (auto simp: snprintf_def Let_def c_str_def takeWhile_stop split: if_splits)

lemma notify_status_body_value:
  "notify_status_body e k status cmd = Inr body \<Longrightarrow>
     body = c_str (take (MAX_BODY_BUFSIZE - 1) (body_format cmd status))"
  by (auto simp: notify_status_body_def MAX_BODY_BUFSIZE_def dest!: c_str_snprintf
      split: option.splits)

lemma notify_events:
  "ev \<in> set (snd (notify e summary body)) \<Longrightarrow>
     ev = Execl NOTIFY_SEND_BINLOC (notify_args e summary body)"
  by (auto simp: notify_def Let_def split: if_splits option.splits ending.splits)

lemma notify_status_events:
  "ev \<in> set (snd (notify_status e k status cmd)) \<Longrightarrow>
     ev = Execl NOTIFY_SEND_BINLOC
            (notify_args e (notify_status_summary status)
               (c_str (take (MAX_BODY_BUFSIZE - 1) (body_format cmd status))))"
  by (auto simp: notify_status_def dest!: notify_events notify_status_body_value
      split: sum.splits)

subsection \<open>The events of a run\<close>

lemma run_prog_returns:
  "run_prog e k progname blk = (Inr status, evs) \<Longrightarrow>
     \<exists>p args t. evs = [Execv p args] \<and> exec e p args = Some t \<and>
       status = WEXITSTATUS (wait_status t)"
  by (auto simp: run_prog_def split: sum.splits if_splits option.splits ending.splits)

lemma run_prog_events:
  "ev \<in> set (snd (run_prog e k progname blk)) \<Longrightarrow> \<exists>p args. ev = Execv p args"
  by (auto simp: run_prog_def split: sum.splits if_splits option.splits ending.splits)

lemma main_launches:
  "is_launch ev \<Longrightarrow> ev \<in> set (snd (main e argv)) \<Longrightarrow> ev \<in> set (snd (main_run e 1 argv))"
  by (auto simp: main_def prog_exists_def split: if_splits sum.splits prod.splits)

lemma main_run_notification:
  assumes "Execv p args \<in> set (snd (main_run e k argv))"
    and "exec e p args = Some (Exited n)"
    and "Execl q ns \<in> set (snd (main_run e k argv))"
  shows "ns = notify_args e (notify_status_summary (WEXITSTATUS (wait_status (Exited n))))
           (c_str (take (MAX_BODY_BUFSIZE - 1)
              (body_format (argv ! 1) (WEXITSTATUS (wait_status (Exited n))))))"
proof (cases "main_argbuf e k argv")
  case (Inl c)
  with assms(1) show ?thesis by (simp add: main_run_def)
next
  case (Inr ak)
  obtain argbuf k1 where ak: "ak = (argbuf, k1)" by (cases ak)
  obtain r evs where rp: "run_prog e k1 (argv ! 1) argbuf = (r, evs)"
    by (cases "run_prog e k1 (argv ! 1) argbuf")
  show ?thesis
  proof (cases r)
    case (Inl c)
    with Inr ak rp assms(3) have "Execl q ns \<in> set (snd (run_prog e k1 (argv ! 1) argbuf))"
      by (simp add: main_run_def)
    with run_prog_events show ?thesis by blast
  next
    case (Inr status)
    with rp run_prog_returns obtain p0 args0 t where
      evs: "evs = [Execv p0 args0]" and t: "exec e p0 args0 = Some t" and
      st: "status = WEXITSTATUS (wait_status t)" by blast
    have tr: "snd (main_run e k argv) =
        evs @ snd (notify_status e (k1 + 1) status (argv ! 1))"
      using \<open>main_argbuf e k argv = Inr ak\<close> ak rp Inr
      by (simp add: main_run_def split: prod.splits sum.splits)
    from assms(1) tr evs have "p = p0 \<and> args = args0"
      by (auto dest: notify_status_events)
    with t assms(2) have "t = Exited n" by simp
    moreover from assms(3) tr evs
    have "Execl q ns \<in> set (snd (notify_status e (k1 + 1) status (argv ! 1)))"
      by auto
    ultimately show ?thesis using st by (auto dest: notify_status_events)
  qed
qed

subsection \<open>The checks at the start of \<^verbatim>\<open>main\<close>\<close>

text \<open>
  C9. An invocation with fewer than two arguments prints the usage error and returns 1.
  The message is the only event of the run: no file is looked at, no program is started.
\<close>

theorem too_few_arguments:
  "length argv < 2 \<Longrightarrow>
     main e argv = (Inr 1, [Stderr ''Error: Too few arguments!\<newline>'']) \<and> exit_status 1 = 1"
  by (simp add: main_def exit_status_def)

theorem too_few_arguments_witness:
  "length [''cmdnotify''] < 2 \<and>
   main sample_env [''cmdnotify''] = (Inr 1, [Stderr ''Error: Too few arguments!\<newline>'']) \<and>
   exit_status 1 = 1"
  using too_few_arguments [of "[''cmdnotify'']" sample_env] by simp

text \<open>
  C3. When the effective user id is 0, \<^verbatim>\<open>main\<close> returns 1 whatever the arguments are,
  and the run starts no program: neither the target nor the notifier.
\<close>

theorem root_refused:
  "euid e = 0 \<Longrightarrow>
     fst (main e argv) = Inr 1 \<and> exit_status 1 = 1 \<and> filter is_launch (snd (main e argv)) = []"
  by (simp add: main_def exit_status_def)

theorem root_refused_witness:
  "euid (sample_env\<lparr>euid := 0\<rparr>) = 0 \<and>
   fst (main (sample_env\<lparr>euid := 0\<rparr>) [''cmdnotify'', ''ls'', ''-l'']) = Inr 1 \<and>
   exit_status 1 = 1 \<and>
   filter is_launch (snd (main (sample_env\<lparr>euid := 0\<rparr>) [''cmdnotify'', ''ls'', ''-l''])) = []"
  using root_refused [of "sample_env\<lparr>euid := 0\<rparr>" "[''cmdnotify'', ''ls'', ''-l'']"] by simp

text \<open>
  C5. When \<^verbatim>\<open>/bin/notify-send\<close> is absent, \<^verbatim>\<open>main\<close> returns 1 and the run starts no
  program: the absence is found before the target could be started.
\<close>

theorem notifier_absent:
  "\<not> present e ''/bin/notify-send'' \<Longrightarrow>
     fst (main e argv) = Inr 1 \<and> exit_status 1 = 1 \<and> filter is_launch (snd (main e argv)) = []"
  by (simp add: main_def exit_status_def)

theorem notifier_absent_witness:
  "\<not> present (sample_env\<lparr>present := (\<lambda>p. p = ''/bin/ls'')\<rparr>) ''/bin/notify-send'' \<and>
   fst (main (sample_env\<lparr>present := (\<lambda>p. p = ''/bin/ls'')\<rparr>) [''cmdnotify'', ''ls'']) = Inr 1 \<and>
   exit_status 1 = 1 \<and>
   filter is_launch
     (snd (main (sample_env\<lparr>present := (\<lambda>p. p = ''/bin/ls'')\<rparr>) [''cmdnotify'', ''ls''])) = []"
  using notifier_absent [of "sample_env\<lparr>present := (\<lambda>p. p = ''/bin/ls'')\<rparr>" "[''cmdnotify'', ''ls'']"]
  by simp

text \<open>
  C4. When \<^verbatim>\<open>create_progpath\<close>, called from \<^verbatim>\<open>prog_exists\<close>, has resolved the path of
  the target and no file is present there, \<^verbatim>\<open>main\<close> returns 1 and the run starts no
  program.
\<close>

theorem target_absent:
  assumes "2 \<le> length argv"
    and "create_progpath e 0 (argv ! 1) = Inr path"
    and "\<not> present e (c_str path)"
  shows "fst (main e argv) = Inr 1 \<and> exit_status 1 = 1 \<and>
         filter is_launch (snd (main e argv)) = []"
  using assms by (simp add: main_def exit_status_def prog_exists_def)

theorem target_absent_witness:
  "2 \<le> length [''cmdnotify'', ''nosuch''] \<and>
   create_progpath sample_env 0 ([''cmdnotify'', ''nosuch''] ! 1) =
     Inr (''/bin/nosuch'' @ replicate 13 NUL) \<and>
   \<not> present sample_env (c_str (''/bin/nosuch'' @ replicate 13 NUL)) \<and>
   fst (main sample_env [''cmdnotify'', ''nosuch'']) = Inr 1 \<and> exit_status 1 = 1 \<and>
   filter is_launch (snd (main sample_env [''cmdnotify'', ''nosuch''])) = []"
proof -
  have h1: "2 \<le> length [''cmdnotify'', ''nosuch'']" by simp
  have h2: "create_progpath sample_env 0 ([''cmdnotify'', ''nosuch''] ! 1) =
     Inr (''/bin/nosuch'' @ replicate 13 NUL)" by code_simp
  have h3: "\<not> present sample_env (c_str (''/bin/nosuch'' @ replicate 13 NUL))" by code_simp
  from target_absent [OF h1 h2 h3] h1 h2 h3 show ?thesis by blast
qed

subsection \<open>The exit status\<close>

text \<open>
  When the path that \<^verbatim>\<open>run_prog\<close> makes is the path of a program that exits with code
  \<open>N\<close>, and nothing on the way faults or hangs, \<^verbatim>\<open>main\<close> returns \<open>N\<close>, however the notifier
  ended.
\<close>

lemma main_returns_exit_code:
  assumes "2 \<le> length argv" and "euid e \<noteq> 0" and "present e ''/bin/notify-send''"
    and "create_progpath e 0 (argv ! 1) = Inr path0" and "present e (c_str path0)"
    and "main_argbuf e 1 argv = Inr (argbuf, k1)" and "fork_run e"
    and "create_progpath e k1 (argv ! 1) = Inr path"
    and "exec e (c_str path) (tl argv) = Some (Exited N)" and "N < 256"
    and "fst (notify_status e (k1 + 1) (int N) (argv ! 1)) = Inr ()"
  shows "fst (main e argv) = Inr (int N) \<and> exit_status (int N) = N"
proof -
  have args: "read_argv argbuf = Some (tl argv)"
    using assms(6,1) by (rule main_argbuf_content)
  have "fst (run_prog e k1 (argv ! 1) argbuf) = Inr (int N)"
    using assms(7,8,9,10) args by (simp add: run_prog_def WEXITSTATUS_Exited)
  then obtain evs where rp: "run_prog e k1 (argv ! 1) argbuf = (Inr (int N), evs)"
    by (cases "run_prog e k1 (argv ! 1) argbuf") auto
  obtain evs1 where ns: "notify_status e (k1 + 1) (int N) (argv ! 1) = (Inr (), evs1)"
    using assms(11) by (cases "notify_status e (k1 + 1) (int N) (argv ! 1)") auto
  have "fst (main_run e 1 argv) = Inr (int N)"
    using assms(6) rp ns by (simp add: main_run_def)
  then have "fst (main e argv) = Inr (int N)"
    using assms(1,2,3,4,5) by (auto simp: main_def prog_exists_def split: prod.splits)
  then show ?thesis using assms(10) by (simp add: exit_status_small)
qed

text \<open>
  In every environment: when \<^verbatim>\<open>main\<close> returns and the run has started a program that exits
  with code \<open>N\<close>, the value returned is \<open>N\<close>.
\<close>

lemma main_returns_target_code:
  assumes "fst (main e argv) = Inr r"
    and "Execv p args \<in> set (snd (main e argv))"
    and "exec e p args = Some (Exited N)" and "N < 256"
  shows "r = int N \<and> exit_status r = N"
proof -
  have mem: "Execv p args \<in> set (snd (main_run e 1 argv))"
    using assms(2) by (intro main_launches) simp_all
  moreover have "fst (main_run e 1 argv) = Inr r"
    using assms(1,2)
    by (auto simp: main_def prog_exists_def split: if_splits sum.splits prod.splits)
  ultimately obtain argbuf k1 status evs evs1 where
    rp: "run_prog e k1 (argv ! 1) argbuf = (Inr status, evs)" and
    ns: "snd (main_run e 1 argv) = evs @ evs1" and
    e1: "set evs1 \<subseteq> set (snd (notify_status e (k1 + 1) status (argv ! 1)))" and
    r: "r = status"
    by (auto simp: main_run_def split: sum.splits prod.splits)
  from run_prog_returns [OF rp] obtain p0 args0 t where
    evs: "evs = [Execv p0 args0]" and t: "exec e p0 args0 = Some t" and
    st: "status = WEXITSTATUS (wait_status t)" by blast
  from mem ns evs e1
  have "p = p0 \<and> args = args0" by (auto dest: notify_status_events)
  with t assms(3) st r have "r = WEXITSTATUS (wait_status (Exited N))" by simp
  with assms(4) show ?thesis by (simp add: WEXITSTATUS_Exited exit_status_small)
qed

text \<open>
  C1, where the code departs from it. \<^verbatim>\<open>prog_exists\<close> frees the path it checked, and
  \<^verbatim>\<open>run_prog\<close> makes the path again with \<^verbatim>\<open>create_progpath\<close>, which appends to whatever the
  new block holds. Take \<^verbatim>\<open>/bin/exit3_nineteen_chrs\<close>, present and exiting with 3, and an
  allocator whose first block is fresh and whose later blocks are recycled. All four
  checks pass, on the path \<^verbatim>\<open>/bin/exit3_nineteen_chrs\<close>; then \<^verbatim>\<open>execv\<close> is called on
  \<^verbatim>\<open>x/bin/exit3_nineteen_chrs\<close>, fails, and the child reaches
  \<^verbatim>\<open>__builtin_unreachable()\<close>. The target is never run, and its exit code is not what
  the run ends with.
\<close>

theorem exit_code_lost:
  "present (sample_env\<lparr>heap := reused_heap\<rparr>) ''/bin/exit3_nineteen_chrs'' \<and>
   exec (sample_env\<lparr>heap := reused_heap\<rparr>) ''/bin/exit3_nineteen_chrs''
     [''exit3_nineteen_chrs''] = Some (Exited 3) \<and>
   main (sample_env\<lparr>heap := reused_heap\<rparr>) [''cmdnotify'', ''exit3_nineteen_chrs''] =
     (Inl Fault,
      [Access ''/bin/notify-send'', Access ''/bin/exit3_nineteen_chrs'',
       Execv ''x/bin/exit3_nineteen_chrs'' [''exit3_nineteen_chrs'']])"
  by code_simp

text \<open>With blocks that hold zero bytes the same invocation returns 3.\<close>

lemma exit_code_kept_on_fresh_blocks:
  "fst (main sample_env [''cmdnotify'', ''exit3_nineteen_chrs'']) = Inr 3"
  by code_simp

subsection \<open>What the notification depends on\<close>

text \<open>
  C10. Take two runs of \<^verbatim>\<open>main\<close>, in any two environments, with the same \<^verbatim>\<open>argv[1]\<close>,
  whose targets exit with the same code, and that both start the notifier. Then the
  notifier gets the same summary and the same body in both: the arguments after
  \<^verbatim>\<open>argv[1]\<close> do not reach the notification.
\<close>

theorem notification_content:
  assumes "argv ! 1 = argv' ! 1"
    and "Execv p args \<in> set (snd (main e argv))" and "exec e p args = Some (Exited n)"
    and "Execv p' args' \<in> set (snd (main e' argv'))" and "exec e' p' args' = Some (Exited n)"
    and "Execl q ns \<in> set (snd (main e argv))"
    and "Execl q' ns' \<in> set (snd (main e' argv'))"
  shows "\<exists>summary body. ns = notify_args e summary body \<and> ns' = notify_args e' summary body"
proof -
  have "ns = notify_args e (notify_status_summary (WEXITSTATUS (wait_status (Exited n))))
           (c_str (take (MAX_BODY_BUFSIZE - 1)
              (body_format (argv ! 1) (WEXITSTATUS (wait_status (Exited n))))))"
    using assms(2,3,6)
    by (intro main_run_notification [of p args e 1 argv n q ns] main_launches) simp_all
  moreover
  have "ns' = notify_args e' (notify_status_summary (WEXITSTATUS (wait_status (Exited n))))
           (c_str (take (MAX_BODY_BUFSIZE - 1)
              (body_format (argv' ! 1) (WEXITSTATUS (wait_status (Exited n))))))"
    using assms(4,5,7)
    by (intro main_run_notification [of p' args' e' 1 argv' n q' ns'] main_launches) simp_all
  ultimately show ?thesis using assms(1) by auto
qed

theorem notification_content_witness:
  "[''cmdnotify'', ''ls'', ''-l''] ! 1 = [''cmdnotify'', ''ls''] ! 1 \<and>
   Execv ''/bin/ls'' [''ls'', ''-l''] \<in> set (snd (main sample_env [''cmdnotify'', ''ls'', ''-l''])) \<and>
   exec sample_env ''/bin/ls'' [''ls'', ''-l''] = Some (Exited 0) \<and>
   Execv ''/bin/ls'' [''ls''] \<in> set (snd (main sample_env [''cmdnotify'', ''ls''])) \<and>
   exec sample_env ''/bin/ls'' [''ls''] = Some (Exited 0) \<and>
   Execl ''/bin/notify-send''
     [''/bin/notify-send'', ''-t'', ''3500'', ''-u'', ''normal'', ''Success'',
      [CHR 0x27] @ ''ls'' @ [CHR 0x27] @ '' returned 0'']
     \<in> set (snd (main sample_env [''cmdnotify'', ''ls'', ''-l''])) \<and>
   Execl ''/bin/notify-send''
     [''/bin/notify-send'', ''-t'', ''3500'', ''-u'', ''normal'', ''Success'',
      [CHR 0x27] @ ''ls'' @ [CHR 0x27] @ '' returned 0'']
     \<in> set (snd (main sample_env [''cmdnotify'', ''ls''])) \<and>
   (\<exists>summary body.
      [''/bin/notify-send'', ''-t'', ''3500'', ''-u'', ''normal'', ''Success'',
       [CHR 0x27] @ ''ls'' @ [CHR 0x27] @ '' returned 0''] = notify_args sample_env summary body)"
proof -
  have h1: "[''cmdnotify'', ''ls'', ''-l''] ! 1 = [''cmdnotify'', ''ls''] ! 1" by simp
  have h2: "Execv ''/bin/ls'' [''ls'', ''-l'']
      \<in> set (snd (main sample_env [''cmdnotify'', ''ls'', ''-l'']))" by code_simp
  have h3: "exec sample_env ''/bin/ls'' [''ls'', ''-l''] = Some (Exited 0)" by code_simp
  have h4: "Execv ''/bin/ls'' [''ls''] \<in> set (snd (main sample_env [''cmdnotify'', ''ls'']))"
    by code_simp
  have h5: "exec sample_env ''/bin/ls'' [''ls''] = Some (Exited 0)" by code_simp
  have h6: "Execl ''/bin/notify-send''
     [''/bin/notify-send'', ''-t'', ''3500'', ''-u'', ''normal'', ''Success'',
      [CHR 0x27] @ ''ls'' @ [CHR 0x27] @ '' returned 0'']
     \<in> set (snd (main sample_env [''cmdnotify'', ''ls'', ''-l'']))" by code_simp
  have h7: "Execl ''/bin/notify-send''
     [''/bin/notify-send'', ''-t'', ''3500'', ''-u'', ''normal'', ''Success'',
      [CHR 0x27] @ ''ls'' @ [CHR 0x27] @ '' returned 0'']
     \<in> set (snd (main sample_env [''cmdnotify'', ''ls'']))" by code_simp
  from notification_content [OF h1 h2 h3 h4 h5 h6 h7] h1 h2 h3 h4 h5 h6 h7
  show ?thesis by blast
qed

subsection \<open>The summary\<close>


lemma notify_status_gives_summary:
  "Execl q ns \<in> set (snd (notify_status e k status cmd)) \<Longrightarrow>
     ns ! 5 = (if status = 0 then ''Success'' else ''Error'')"
  by (auto dest!: notify_status_events
      simp: notify_args_def notify_status_summary_def SUCCESS_SUMMARY_def FAILURE_SUMMARY_def)

subsection \<open>The body\<close>

lemma dec_nat_digits: "set (dec_nat n) \<subseteq> set ''0123456789''"
proof (induction n rule: dec_nat.induct)
  case (1 n)
  have d: "\<And>k. k < 10 \<Longrightarrow> ''0123456789'' ! k \<in> set ''0123456789''"
    by (rule nth_mem) simp
  show ?case
  proof (cases "n < 10")
    case True
    then show ?thesis using d [of n] by (subst dec_nat.simps) simp
  next
    case False
    have "n mod 10 < 10" by simp
    from d [OF this] "1.IH" False show ?thesis by (subst dec_nat.simps) simp
  qed
qed

lemma NUL_not_in_dec_nat: "NUL \<notin> set (dec_nat n)"
proof
  assume "NUL \<in> set (dec_nat n)"
  with dec_nat_digits have "NUL \<in> set ''0123456789''" by blast
  then show False by (simp add: NUL_def)
qed

lemma NUL_not_in_dec_int: "NUL \<notin> set (dec_int i)"
  using NUL_not_in_dec_nat [of "nat i"] NUL_not_in_dec_nat [of "nat (- i)"]
  by (simp add: dec_int_def NUL_def)

lemma c_str_id: "NUL \<notin> set s \<Longrightarrow> c_str s = s"
  by (auto simp: c_str_def takeWhile_eq_all_conv)

text \<open>
  When the formatted text is shorter than \<open>MAX_BODY_BUFSIZE\<close>, the body is the whole of
  it: the command between quotes, \<open>returned\<close> and the status in decimal.
\<close>

lemma notify_status_body_short:
  assumes "notify_status_body e k status cmd = Inr body"
    and "length (body_format cmd status) < MAX_BODY_BUFSIZE"
    and "NUL \<notin> set cmd"
  shows "body = [CHR 0x27] @ cmd @ [CHR 0x27] @ '' returned '' @ dec_int status"
proof -
  have "NUL \<notin> set (body_format cmd status)"
    using assms(3) NUL_not_in_dec_int [of status] by (auto simp: body_format_def NUL_def)
  then have "c_str (take (MAX_BODY_BUFSIZE - 1) (body_format cmd status)) = body_format cmd status"
    using assms(2) by (simp add: c_str_id)
  with notify_status_body_value [OF assms(1)] show ?thesis by (simp add: body_format_def)
qed

lemma no_newline_dec_nat: "CHR 0x0A \<notin> set (dec_nat n)"
proof
  assume "CHR 0x0A \<in> set (dec_nat n)"
  with dec_nat_digits have "CHR 0x0A \<in> set ''0123456789''" by blast
  then show False by simp
qed

lemma no_newline_dec_int: "CHR 0x0A \<notin> set (dec_int i)"
  by (simp add: dec_int_def no_newline_dec_nat)

text \<open>The body has a line break only where the command has one.\<close>

lemma notify_status_body_one_line:
  assumes "notify_status_body e k status cmd = Inr body"
    and "CHR 0x0A \<notin> set cmd"
  shows "CHR 0x0A \<notin> set body"
proof -
  have "body = takeWhile (\<lambda>c. c \<noteq> NUL) (take (MAX_BODY_BUFSIZE - 1) (body_format cmd status))"
    using notify_status_body_value [OF assms(1)] by (simp add: c_str_def)
  then have "set body \<subseteq> set (take (MAX_BODY_BUFSIZE - 1) (body_format cmd status))"
    by (auto dest: set_takeWhileD)
  also have "\<dots> \<subseteq> set (body_format cmd status)"
    by (rule set_take_subset)
  finally have "set body \<subseteq> set (body_format cmd status)" .
  moreover have "CHR 0x0A \<notin> set (body_format cmd status)"
    using assms(2) no_newline_dec_int [of status] by (simp add: body_format_def)
  ultimately show ?thesis by blast
qed

text \<open>
  C2, where the code departs from it. For a command of 250 characters and status 1 the
  text to format has 263 characters; \<^verbatim>\<open>snprintf\<close> is told to stop at
  \<open>MAX_BODY_BUFSIZE\<close>, so the body is the opening quote, the command, the closing quote
  and \<open>" re"\<close>: the status is not in it.
\<close>

theorem body_cut_at_bufsize:
  "notify_status_body sample_env k 1 (replicate 250 CHR ''a'') =
     Inr ([CHR 0x27] @ replicate 250 CHR ''a'' @ [CHR 0x27] @ '' re'')"
proof -
  have "heap sample_env k = heap sample_env 0"
    by (simp add: sample_env_def sample_heap_def fun_eq_iff)
  then have "notify_status_body sample_env k 1 (replicate 250 CHR ''a'') =
      notify_status_body sample_env 0 1 (replicate 250 CHR ''a'')"
    by (simp only: notify_status_body_def)
  also have "\<dots> = Inr ([CHR 0x27] @ replicate 250 CHR ''a'' @ [CHR 0x27] @ '' re'')"
    by code_simp
  finally show ?thesis .
qed

subsection \<open>The argument vector\<close>

lemma arg_loop_crash: "arg_loop e argv i n blk k = Inl c \<Longrightarrow> c = Fault"
proof (induction e argv i n blk k rule: arg_loop.induct)
  case (1 e argv i n blk k)
  then show ?case
    by (subst (asm) arg_loop.simps) (auto simp: Let_def split: if_splits option.splits)
qed

lemma main_argbuf_crash: "main_argbuf e k argv = Inl c \<Longrightarrow> c = Fault"
  by (auto simp: main_argbuf_def split: option.splits sum.splits dest: arg_loop_crash)

text \<open>
  With an allocator that grants exactly the bytes asked for, and pointers of three
  bytes or more, the assembly never completes: the block asked for last has
  \<open>sizeof(char *) + argbuf_entries + 1\<close> bytes, too few for cell \<open>argbuf_entries\<close>.
\<close>

lemma main_argbuf_exact:
  assumes "\<And>k n bytes. heap e k n = Some bytes \<Longrightarrow> length bytes = n"
    and "3 \<le> ptr_size e" and "2 \<le> length argv"
  shows "main_argbuf e k argv = Inl Fault"
proof (cases "main_argbuf e k argv")
  case (Inl c)
  then show ?thesis using main_argbuf_crash by blast
next
  case (Inr ak)
  then obtain a0 a1 n a2 a3 k1 argbuf where
    s0: "store_ptr a0 0 (Some (argv ! 1)) = Some a1" and
    lp: "arg_loop e argv 2 1 a1 (k + 1) = Inr (n, a2, k1)" and
    r: "realloc_ptrs e k1 a2 (ptr_size e + (n + 1)) = Some a3" and
    s: "store_ptr a3 n None = Some argbuf"
    by (auto simp: main_argbuf_def split: option.splits sum.splits)
  from s0 have a1: "a1 = a0[0 := Some (Some (argv ! 1))]" "0 < length a0"
    by (auto simp: store_ptr_def split: if_splits)
  have tl1: "take 1 (tl argv) = [argv ! 1]" using assms(3)
    by (cases argv; cases "tl argv") auto
  have "take 1 a1 = map (\<lambda>s. Some (Some s)) (take 1 (tl argv))"
    using a1 tl1 by (cases a0) auto
  from arg_loop_inv [OF lp _ assms(3) _ this] a1 have n: "Suc n = length argv" by auto
  from r obtain bytes where b: "heap e k1 (ptr_size e + (n + 1)) = Some bytes"
    and a3: "length a3 = length bytes div ptr_size e"
    by (auto simp: realloc_ptrs_def Let_def split: option.splits)
  from assms(1) [OF b] have lb: "length bytes = ptr_size e + (n + 1)" .
  from s have "n < length a3" by (auto simp: store_ptr_def split: if_splits)
  then have "Suc n \<le> (ptr_size e + (n + 1)) div ptr_size e" using a3 lb by simp
  moreover have "0 < ptr_size e" using assms(2) by simp
  ultimately have le: "Suc n * ptr_size e \<le> ptr_size e + (n + 1)"
    by (simp add: less_eq_div_iff_mult_less_eq)
  have n1: "1 \<le> n" using n assms(3) by simp
  have "n * 3 \<le> n * ptr_size e" using assms(2) by (rule mult_le_mono2)
  also have "\<dots> \<le> Suc n" using le by simp
  finally have "n * 3 \<le> Suc n" .
  with n1 have False by arith
  then show ?thesis ..
qed

text \<open>
  Whenever a run of \<^verbatim>\<open>main\<close> reaches \<^verbatim>\<open>execv\<close>, the vector it passes is \<^verbatim>\<open>argv[1]\<close>, the
  arguments after it in their order, and the NULL that ends it.
\<close>

lemma run_prog_args:
  "Execv p args \<in> set (snd (run_prog e k progname blk)) \<Longrightarrow> read_argv blk = Some args"
  by (auto simp: run_prog_def split: sum.splits if_splits option.splits ending.splits)

lemma notify_status_no_execv:
  "notify_status e k status cmd = (r, evs) \<Longrightarrow> Execv p args \<notin> set evs"
  using notify_status_events [of "Execv p args" e k status cmd] by auto

lemma main_execv_args:
  assumes "Execv p args \<in> set (snd (main e argv))"
  shows "args = tl argv"
proof -
  have len: "2 \<le> length argv"
    using assms by (auto simp: main_def split: if_splits)
  have mr: "Execv p args \<in> set (snd (main_run e 1 argv))"
    using assms by (intro main_launches) simp_all
  then obtain argbuf k1 where ab: "main_argbuf e 1 argv = Inr (argbuf, k1)"
    by (cases "main_argbuf e 1 argv") (auto simp: main_run_def)
  from mr ab have "Execv p args \<in> set (snd (run_prog e k1 (argv ! 1) argbuf))"
    by (auto simp: main_run_def split: prod.splits sum.splits dest: notify_status_no_execv)
  then have "read_argv argbuf = Some args" by (rule run_prog_args)
  with main_argbuf_content [OF ab len] show ?thesis by simp
qed

text \<open>
  C7, where the code departs from it. With the sample allocator and the three arguments
  \<open>ls -l -a\<close>, the last \<^verbatim>\<open>realloc\<close> asks for \<open>8 + (3 + 1) = 12\<close> bytes where
  \<open>8 * (3 + 1) = 32\<close> are needed; the block has 24 usable bytes, and the NULL for cell 3
  is stored past its end. The behaviour of the program is undefined from there on; the
  run is cut off before \<^verbatim>\<open>run_prog\<close>.
\<close>

theorem argbuf_overflow:
  "main_argbuf sample_env k [''cmdnotify'', ''ls'', ''-l'', ''-a''] = Inl Fault \<and>
   main sample_env [''cmdnotify'', ''ls'', ''-l'', ''-a''] =
     (Inl Fault, [Access ''/bin/notify-send'', Access ''/bin/ls''])"
proof
  show "main_argbuf sample_env k [''cmdnotify'', ''ls'', ''-l'', ''-a''] = Inl Fault"
    by (simp add: main_argbuf_def arg_loop.simps malloc_ptrs_def realloc_ptrs_def
        store_ptr_def sample_env_def sample_heap_def Let_def)
  show "main sample_env [''cmdnotify'', ''ls'', ''-l'', ''-a''] =
     (Inl Fault, [Access ''/bin/notify-send'', Access ''/bin/ls''])"
    by code_simp
qed

text \<open>The same with one argument, when the allocator grants exactly 10 bytes.\<close>

lemma argbuf_overflow_exact:
  "main_argbuf (sample_env\<lparr>heap := exact_heap\<rparr>) 1 [''cmdnotify'', ''ls''] = Inl Fault"
  by code_simp

subsection \<open>The resolved path\<close>

text \<open>
  When \<^verbatim>\<open>malloc\<close> delivers a block that starts with a NUL byte and has room for the
  path, the path is the prefix followed by the program name.
\<close>

lemma c_str_append_NUL: "NUL \<notin> set s \<Longrightarrow> c_str (s @ NUL # rest) = s"
  by (auto simp: c_str_def takeWhile_stop takeWhile_eq_all_conv)

lemma length_strcat: "strcat dest src = Some dest1 \<Longrightarrow> length dest1 = length dest"
  by (auto simp: strcat_def Let_def split: if_splits)

lemma strcat_at_NUL:
  assumes "NUL \<notin> set s" and "length s + length src \<le> length s + length rest"
  shows "\<exists>rest'. strcat (s @ NUL # rest) src = Some ((s @ src) @ NUL # rest')"
proof -
  have "c_str (s @ NUL # rest) = s" using assms(1) by (rule c_str_append_NUL)
  then show ?thesis using assms(2) by (simp add: strcat_def Let_def)
qed

lemma create_progpath_clean:
  assumes "heap e k (length DEFAULT_BINDIR_PREFIX + length progname + 1) = Some (NUL # rest)"
    and "length DEFAULT_BINDIR_PREFIX + length progname \<le> length rest"
    and "NUL \<notin> set progname"
  shows "\<exists>buf. create_progpath e k progname = Inr buf \<and> c_str buf = ''/bin/'' @ progname"
proof -
  from strcat_at_NUL [of "[]" DEFAULT_BINDIR_PREFIX rest] assms(2)
  obtain rest1 where s1: "strcat (NUL # rest) DEFAULT_BINDIR_PREFIX = Some (''/bin/'' @ NUL # rest1)"
    by (auto simp: DEFAULT_BINDIR_PREFIX_def)
  then have "length (''/bin/'' @ NUL # rest1) = length (NUL # rest)"
    by (rule length_strcat)
  then have l1: "length rest = length rest1 + 5" by simp
  have "NUL \<notin> set ''/bin/''" by (simp add: NUL_def)
  from strcat_at_NUL [OF this, of progname rest1] assms(2) l1
  obtain rest2 where s2: "strcat (''/bin/'' @ NUL # rest1) progname =
      Some ((''/bin/'' @ progname) @ NUL # rest2)"
    by (auto simp: DEFAULT_BINDIR_PREFIX_def)
  have "c_str ((''/bin/'' @ progname) @ NUL # rest2) = ''/bin/'' @ progname"
    using assms(3) by (intro c_str_append_NUL) (auto simp: NUL_def)
  with s1 s2 assms(1) show ?thesis by (simp add: create_progpath_def)
qed

text \<open>
  C8, where the code departs from it. \<^verbatim>\<open>create_progpath\<close> appends to whatever string the
  block from \<^verbatim>\<open>malloc\<close> holds. For a recycled block that starts with the byte \<open>x\<close> and a
  NUL, the path made for \<open>ls\<close> is \<open>x/bin/ls\<close>.
\<close>

theorem progpath_recycled_block:
  "create_progpath (sample_env\<lparr>heap := recycled_heap\<rparr>) k ''ls'' =
     Inr (''x/bin/ls'' @ replicate 16 NUL)"
proof -
  have "heap (sample_env\<lparr>heap := recycled_heap\<rparr>) k =
      heap (sample_env\<lparr>heap := recycled_heap\<rparr>) 0"
    by (simp add: recycled_heap_def fun_eq_iff)
  then have "create_progpath (sample_env\<lparr>heap := recycled_heap\<rparr>) k ''ls'' =
      create_progpath (sample_env\<lparr>heap := recycled_heap\<rparr>) 0 ''ls''"
    by (simp only: create_progpath_def)
  also have "\<dots> = Inr (''x/bin/ls'' @ replicate 16 NUL)"
    by code_simp
  finally show ?thesis .
qed

subsection \<open>The two older revisions\<close>

text \<open>Both older revisions make the first and the third check of the latest one.\<close>

lemma too_few_arguments_older:
  "length argv < 2 \<Longrightarrow>
     main_p0 e argv = (Inr 1, [Stderr ''Error: Too few arguments!\<newline>'']) \<and>
     main_sys e argv = (Inr 1, [Stderr ''Error: Too few arguments!\<newline>''])"
  by (simp add: main_p0_def main_sys_def)

lemma notifier_absent_older:
  "\<not> present e ''/bin/notify-send'' \<Longrightarrow>
     fst (main_p0 e argv) = Inr 1 \<and> filter is_launch (snd (main_p0 e argv)) = [] \<and>
     fst (main_sys e argv) = Inr 1 \<and> filter is_launch (snd (main_sys e argv)) = []"
  by (simp add: main_p0_def main_sys_def)

text \<open>
  \<^verbatim>\<open>part_000\<close> has no check of the user id and none of the target: as root it runs the
  target and the notifier, and for a target that is absent it calls \<^verbatim>\<open>execv\<close>, which
  fails, so that the child reaches \<^verbatim>\<open>__builtin_unreachable()\<close>.
\<close>

lemma main_p0_as_root:
  "map is_launch (snd (main_p0 (sample_env\<lparr>euid := 0\<rparr>) [''cmdnotify'', ''ls''])) =
     [False, True, True] \<and>
   fst (main_p0 (sample_env\<lparr>euid := 0\<rparr>) [''cmdnotify'', ''ls'']) = Inr 0"
  by code_simp

lemma main_p0_target_absent:
  "main_p0 sample_env [''cmdnotify'', ''nosuch''] =
     (Inl Fault, [Access ''/bin/notify-send'', Execv ''/bin/nosuch'' [''nosuch'']])"
  by code_simp

text \<open>
  \<^verbatim>\<open>part_000\<close> returns the exit code of the target, like the latest revision. The
  \<^verbatim>\<open>system()\<close> revision returns the wait status as \<^verbatim>\<open>system\<close> gave it, whose low byte
  is 0 for every target that exits: for a target that exits with 1 it returns 256, so
  the notification says \<open>Error\<close> and the exit status of the process is 0.
\<close>

lemma notify_p0_events:
  "ev \<in> set (snd (notify_p0 e summary body)) \<Longrightarrow> \<exists>q ns. ev = Execl q ns"
  by (auto simp: notify_p0_def Let_def split: if_splits option.splits ending.splits)

lemma notify_status_p0_events:
  "ev \<in> set (snd (notify_status_p0 e k status cmd)) \<Longrightarrow> \<exists>q ns. ev = Execl q ns"
  by (auto simp: notify_status_p0_def dest: notify_p0_events split: sum.splits)

lemma main_p0_returns_target_code:
  assumes "fst (main_p0 e argv) = Inr r"
    and "Execv p args \<in> set (snd (main_p0 e argv))"
    and "exec e p args = Some (Exited N)" and "N < 256"
  shows "r = int N \<and> exit_status r = N"
proof -
  from assms(1,2) obtain argbuf k1 status evs evs1 where
    rp: "run_prog e k1 (argv ! 1) argbuf = (Inr status, evs)" and
    mem: "Execv p args \<in> set (evs @ evs1)" and
    e1: "set evs1 \<subseteq> set (snd (notify_status_p0 e (k1 + 1) status (argv ! 1)))" and
    r: "r = status"
    by (auto simp: main_p0_def split: if_splits sum.splits prod.splits)
  from run_prog_returns [OF rp] obtain p0 args0 t where
    evs: "evs = [Execv p0 args0]" and t: "exec e p0 args0 = Some t" and
    st: "status = WEXITSTATUS (wait_status t)" by blast
  from mem evs e1 have "p = p0 \<and> args = args0" by (auto dest: notify_status_p0_events)
  with t assms(3) st r have "r = WEXITSTATUS (wait_status (Exited N))" by simp
  with assms(4) show ?thesis by (simp add: WEXITSTATUS_Exited exit_status_small)
qed

lemma main_sys_returns_wait_status:
  assumes "fst (main_sys e argv) = Inr r"
    and "System c \<in> set (snd (main_sys e argv))"
    and "shell e c = Some (Exited N)"
  shows "r = int (N mod 256) * 256 \<and> exit_status r = 0"
proof -
  from assms(1,2) obtain cmdbuf status evs evs1 where
    sc: "system_call e cmdbuf = (Inr status, evs)" and
    mem: "System c \<in> set (evs @ evs1)" and
    e1: "set evs1 \<subseteq> set (snd (notify_status_p0 e 1 status (argv ! 1)))" and
    r: "r = status"
    by (auto simp: main_sys_def split: if_splits sum.splits prod.splits)
  from mem e1 have "System c \<in> set evs" by (auto dest: notify_status_p0_events)
  with sc have "c = cmdbuf"
    by (auto simp: system_call_def split: option.splits ending.splits)
  with sc assms(3) r have "r = int (N mod 256) * 256"
    by (simp add: system_call_def wait_status_def)
  then show ?thesis by (simp add: exit_status_def)
qed

lemma main_p0_false:
  "fst (main_p0 sample_env [''cmdnotify'', ''false'']) = Inr 1"
  by code_simp

lemma main_sys_false:
  "main_sys sample_env [''cmdnotify'', ''false''] =
     (Inr 256,
      [Access ''/bin/notify-send'', System ''false '',
       Execl ''/bin/notify-send''
         [''/bin/notify-send'', ''-t'', ''3500'', ''Error'',
          [CHR 0x27] @ ''false'' @ [CHR 0x27] @ '' has returned non-zero value'']]) \<and>
   exit_status 256 = 0"
  by code_simp

text \<open>
  The body of the two older revisions: the command between quotes and one of the two
  endings, without the two newlines, which the bound given to \<^verbatim>\<open>snprintf\<close> cuts off.
\<close>

lemma notify_status_body_p0_value:
  assumes "notify_status_body_p0 e k status cmd = Inr body" and "NUL \<notin> set cmd"
  shows "body = [CHR 0x27] @ cmd @ [CHR 0x27] @
           (if status = 0 then '' has finished and returned 0''
            else '' has returned non-zero value'')"
proof -
  let ?be = "if status = 0 then body_end_success else body_end_fail"
  let ?len = "length cmd + 2 + (length ?be + 1)"
  from assms(1) obtain buf buf1 where
    "snprintf buf ?len (body_format_p0 cmd ?be) = Some buf1" and b: "body = c_str buf1"
    by (auto simp: notify_status_body_p0_def Let_def split: option.splits)
  then have "c_str buf1 = c_str (take (?len - 1) (body_format_p0 cmd ?be))"
    by (intro c_str_snprintf) simp_all
  moreover have "take (?len - 1) (body_format_p0 cmd ?be) =
      [CHR 0x27] @ cmd @ [CHR 0x27] @
           (if status = 0 then '' has finished and returned 0''
            else '' has returned non-zero value'')"
    by (simp add: body_format_p0_def body_end_success_def body_end_fail_def)
  moreover have "NUL \<notin> set ([CHR 0x27] @ cmd @ [CHR 0x27] @
           (if status = 0 then '' has finished and returned 0''
            else '' has returned non-zero value''))"
    using assms(2) by (auto simp: NUL_def)
  ultimately show ?thesis using b c_str_id by metis
qed

end
